theory Spec2Isabelle
  imports Complex_Main
begin

unbundle bit_operations_syntax

section \<open>Scalars and vectors\<close>

text \<open>
  The programs compute on \<^verbatim>\<open>float\<close>. Coordinates of points and directions are
  modelled as real numbers, so arithmetic on them is exact: rounding, overflow and
  NaN are outside the model. The only non-finite values the code itself introduces
  are the two sentinels \<^verbatim>\<open>inf\<close> and \<^verbatim>\<open>-inf\<close> with which \<^verbatim>\<open>project\<close> starts its
  running minimum and maximum; the type \<open>float\<close> adds them to the reals.
\<close>

datatype float = NegInf | Finite real | PosInf

instantiation float :: linorder
begin

fun less_eq_float :: "float \<Rightarrow> float \<Rightarrow> bool" where
  "less_eq_float NegInf b = True"
| "less_eq_float (Finite a) NegInf = False"
| "less_eq_float (Finite a) (Finite b) = (a \<le> b)"
| "less_eq_float (Finite a) PosInf = True"
| "less_eq_float PosInf PosInf = True"
| "less_eq_float PosInf b = False"

definition less_float :: "float \<Rightarrow> float \<Rightarrow> bool" where
  "less_float a b = (a \<le> b \<and> \<not> b \<le> a)"

instance
proof
  fix a b c :: float
  show "(a < b) = (a \<le> b \<and> \<not> b \<le> a)"
    by (simp add: less_float_def)
  show "a \<le> a"
    by (cases a) simp_all
  show "a \<le> b \<Longrightarrow> b \<le> c \<Longrightarrow> a \<le> c"
    by (cases a; cases b; cases c) simp_all
  show "a \<le> b \<Longrightarrow> b \<le> a \<Longrightarrow> a = b"
    by (cases a; cases b) simp_all
  show "a \<le> b \<or> b \<le> a"
    by (cases a; cases b) auto
qed

end

text \<open>\<^verbatim>\<open>std::min(a, b)\<close> is \<^verbatim>\<open>(b < a) ? b : a\<close>, \<^verbatim>\<open>std::max(a, b)\<close> is \<^verbatim>\<open>(a < b) ? b : a\<close>.\<close>

definition std_min :: "float \<Rightarrow> float \<Rightarrow> float" where
  "std_min a b = (if b < a then b else a)"

definition std_max :: "float \<Rightarrow> float \<Rightarrow> float" where
  "std_max a b = (if a < b then b else a)"

text \<open>\<^verbatim>\<open>glm::vec3\<close> with the two operations of \<^verbatim>\<open>glm/geometric.hpp\<close> the code calls.\<close>

datatype vec3 = Vec3 (vx: real) (vy: real) (vz: real)

definition dot :: "vec3 \<Rightarrow> vec3 \<Rightarrow> real" where
  "dot a b = vx a * vx b + vy a * vy b + vz a * vz b"

definition cross :: "vec3 \<Rightarrow> vec3 \<Rightarrow> vec3" where
  "cross a b = Vec3 (vy a * vz b - vy b * vz a)
                    (vz a * vx b - vz b * vx a)
                    (vx a * vy b - vx b * vy a)"


definition vneg :: "vec3 \<Rightarrow> vec3" where
  "vneg a = Vec3 (- vx a) (- vy a) (- vz a)"


definition vzero :: vec3 where
  "vzero = Vec3 0 0 0"

section \<open>The shape contract\<close>

text \<open>
  \<^verbatim>\<open>project\<close> and \<^verbatim>\<open>intersect\<close> are templates over any type with the members
  \<^verbatim>\<open>vertices\<close>, \<^verbatim>\<open>face_normals\<close> and \<^verbatim>\<open>edge_directions\<close>; the arrays are lists.
\<close>

record body =
  vertices :: "vec3 list"
  face_normals :: "vec3 list"
  edge_directions :: "vec3 list"

section \<open>intersect.hpp\<close>

text \<open>The loop of \<^verbatim>\<open>project\<close> over the vertices, with its two running values.\<close>

fun project_loop :: "vec3 list \<Rightarrow> vec3 \<Rightarrow> float \<Rightarrow> float \<Rightarrow> float \<times> float" where
  "project_loop [] n mn mx = (mn, mx)"
| "project_loop (p # ps) n mn mx =
     (let v = Finite (dot p n)
      in project_loop ps n (std_min mn v) (std_max mx v))"

definition project :: "body \<Rightarrow> vec3 \<Rightarrow> float \<times> float" where
  "project b n = project_loop (vertices b) n PosInf NegInf"

definition intersect_along :: "body \<Rightarrow> body \<Rightarrow> vec3 \<Rightarrow> bool" where
  "intersect_along b1 b2 n =
     (case project b1 n of (min1, max1) \<Rightarrow>
      case project b2 n of (min2, max2) \<Rightarrow>
        (min1 \<le> max2) \<and> (min2 \<le> max1))"

text \<open>
  The loops of \<^verbatim>\<open>intersect\<close>. A loop yields \<open>Some r\<close> when it executes
  \<^verbatim>\<open>return r\<close> and \<open>None\<close> when it runs to its end; beside that it yields the
  axes it has handed to \<^verbatim>\<open>intersect_along\<close>, in the order of the calls.
\<close>

fun normals_loop :: "body \<Rightarrow> body \<Rightarrow> vec3 list \<Rightarrow> bool option \<times> vec3 list" where
  "normals_loop b1 b2 [] = (None, [])"
| "normals_loop b1 b2 (n # ns) =
     (if \<not> intersect_along b1 b2 n then (Some False, [n])
      else case normals_loop b1 b2 ns of (r, tested) \<Rightarrow> (r, n # tested))"

fun edges_inner_loop :: "body \<Rightarrow> body \<Rightarrow> vec3 \<Rightarrow> vec3 list \<Rightarrow> bool option \<times> vec3 list" where
  "edges_inner_loop b1 b2 e1 [] = (None, [])"
| "edges_inner_loop b1 b2 e1 (e2 # es2) =
     (let n = cross e1 e2
      in if \<not> intersect_along b1 b2 n then (Some False, [n])
         else case edges_inner_loop b1 b2 e1 es2 of (r, tested) \<Rightarrow> (r, n # tested))"

fun edges_outer_loop :: "body \<Rightarrow> body \<Rightarrow> vec3 list \<Rightarrow> vec3 list \<Rightarrow> bool option \<times> vec3 list" where
  "edges_outer_loop b1 b2 [] es2 = (None, [])"
| "edges_outer_loop b1 b2 (e1 # es1) es2 =
     (case edges_inner_loop b1 b2 e1 es2 of
        (Some r, tested) \<Rightarrow> (Some r, tested)
      | (None, tested) \<Rightarrow>
          (case edges_outer_loop b1 b2 es1 es2 of (r, tested') \<Rightarrow> (r, tested @ tested')))"

definition intersect_run :: "body \<Rightarrow> body \<Rightarrow> bool \<times> vec3 list" where
  "intersect_run b1 b2 =
     (case normals_loop b1 b2 (face_normals b1) of
        (Some r, t1) \<Rightarrow> (r, t1)
      | (None, t1) \<Rightarrow>
     (case normals_loop b1 b2 (face_normals b2) of
        (Some r, t2) \<Rightarrow> (r, t1 @ t2)
      | (None, t2) \<Rightarrow>
     (case edges_outer_loop b1 b2 (edge_directions b1) (edge_directions b2) of
        (Some r, t3) \<Rightarrow> (r, t1 @ t2 @ t3)
      | (None, t3) \<Rightarrow> (True, t1 @ t2 @ t3))))"

definition intersect :: "body \<Rightarrow> body \<Rightarrow> bool" where
  "intersect b1 b2 = fst (intersect_run b1 b2)"

section \<open>The axis sequence of the separating-axis test\<close>

text \<open>
  The order in which the specification lists the candidate axes: the face normals
  of the first shape, those of the second, then the cross products of every edge
  direction of the first with every edge direction of the second.
\<close>

definition sat_axes :: "body \<Rightarrow> body \<Rightarrow> vec3 list" where
  "sat_axes b1 b2 =
     face_normals b1 @ face_normals b2 @
     concat (map (\<lambda>e1. map (\<lambda>e2. cross e1 e2) (edge_directions b2)) (edge_directions b1))"

text \<open>The closed-interval overlap test on the two projections.\<close>

definition overlap_on :: "body \<Rightarrow> body \<Rightarrow> vec3 \<Rightarrow> bool" where
  "overlap_on b1 b2 n =
     (fst (project b1 n) \<le> snd (project b2 n) \<and> fst (project b2 n) \<le> snd (project b1 n))"

text \<open>The axes up to and including the first one that fails a test.\<close>

definition upto_first_failure :: "('a \<Rightarrow> bool) \<Rightarrow> 'a list \<Rightarrow> 'a list" where
  "upto_first_failure P xs = takeWhile P xs @ take 1 (dropWhile P xs)"

section \<open>The axis-aligned box\<close>

text \<open>
  The constructor of \<^verbatim>\<open>aabb\<close> fills \<^verbatim>\<open>vertices[i]\<close> for \<^verbatim>\<open>i\<close> from 0 to 7;
  \<^verbatim>\<open>(i & 1) ? max.x : min.x\<close> takes the first branch when \<^verbatim>\<open>i & 1\<close> is not zero.
  The two static arrays are the same three constants.
\<close>

definition aabb_vertex :: "vec3 \<Rightarrow> vec3 \<Rightarrow> nat \<Rightarrow> vec3" where
  "aabb_vertex mn mx i =
     Vec3 (if i AND 1 \<noteq> 0 then vx mx else vx mn)
          (if i AND 2 \<noteq> 0 then vy mx else vy mn)
          (if i AND 4 \<noteq> 0 then vz mx else vz mn)"

definition aabb_face_normals :: "vec3 list" where
  "aabb_face_normals = [Vec3 1 0 0, Vec3 0 1 0, Vec3 0 0 1]"

definition aabb_edge_directions :: "vec3 list" where
  "aabb_edge_directions = [Vec3 1 0 0, Vec3 0 1 0, Vec3 0 0 1]"

definition aabb :: "vec3 \<Rightarrow> vec3 \<Rightarrow> body" where
  "aabb mn mx =
     \<lparr>vertices = map (aabb_vertex mn mx) [0..<8],
      face_normals = aabb_face_normals,
      edge_directions = aabb_edge_directions\<rparr>"

text \<open>The precondition of the constructor that the caller owes: \<open>min \<le> max\<close> on each axis.\<close>

definition vec3_le :: "vec3 \<Rightarrow> vec3 \<Rightarrow> bool" where
  "vec3_le a b = (vx a \<le> vx b \<and> vy a \<le> vy b \<and> vz a \<le> vz b)"

text \<open>
  The naive test of two boxes the generic test is compared with: on each of the
  three coordinates the closed ranges of the two boxes meet.
\<close>

definition naive_overlap :: "vec3 \<Rightarrow> vec3 \<Rightarrow> vec3 \<Rightarrow> vec3 \<Rightarrow> bool" where
  "naive_overlap amin amax bmin bmax =
     (vx amin \<le> vx bmax \<and> vx bmin \<le> vx amax \<and>
      vy amin \<le> vy bmax \<and> vy bmin \<le> vy amax \<and>
      vz amin \<le> vz bmax \<and> vz bmin \<le> vz amax)"

section \<open>The view frustum\<close>












section \<open>Projection\<close>

lemma std_min_eq: "std_min a b = min a b"
  by (auto simp: std_min_def min_def)

lemma std_max_eq: "std_max a b = max a b"
  by (auto simp: std_max_def max_def)

lemma project_loop_acc:
  "project_loop ps n mn mx =
     (fold (\<lambda>p a. min a (Finite (dot p n))) ps mn, fold (\<lambda>p a. max a (Finite (dot p n))) ps mx)"
  by (induction ps arbitrary: mn mx) (simp_all add: std_min_eq std_max_eq Let_def)

lemma min_Finite: "min (Finite a) (Finite b) = Finite (min a b)"
  by (simp add: min_def)

lemma max_Finite: "max (Finite a) (Finite b) = Finite (max a b)"
  by (simp add: max_def)

lemma fold_min_Finite:
  "fold (\<lambda>p a. min a (Finite (dot p n))) ps (Finite m) = Finite (fold (\<lambda>p a. min a (dot p n)) ps m)"
  by (induction ps arbitrary: m) (simp_all add: min_Finite)

lemma fold_max_Finite:
  "fold (\<lambda>p a. max a (Finite (dot p n))) ps (Finite m) = Finite (fold (\<lambda>p a. max a (dot p n)) ps m)"
  by (induction ps arbitrary: m) (simp_all add: max_Finite)

lemma fold_min_Min:
  "fold (\<lambda>p a. min a (dot p n)) ps (m::real) = Min (insert m ((\<lambda>p. dot p n) ` set ps))"
proof (induction ps arbitrary: m)
  case Nil
  show ?case by simp
next
  case (Cons p ps)
  have "Min (insert (min m (dot p n)) ((\<lambda>p. dot p n) ` set ps)) =
        Min (insert m (insert (dot p n) ((\<lambda>p. dot p n) ` set ps)))"
    by (cases "set ps = {}") (simp_all add: min.assoc min.commute)
  then show ?case using Cons.IH by simp
qed

lemma fold_max_Max:
  "fold (\<lambda>p a. max a (dot p n)) ps (m::real) = Max (insert m ((\<lambda>p. dot p n) ` set ps))"
proof (induction ps arbitrary: m)
  case Nil
  show ?case by simp
next
  case (Cons p ps)
  have "Max (insert (max m (dot p n)) ((\<lambda>p. dot p n) ` set ps)) =
        Max (insert m (insert (dot p n) ((\<lambda>p. dot p n) ` set ps)))"
    by (cases "set ps = {}") (simp_all add: max.assoc max.commute)
  then show ?case using Cons.IH by simp
qed

lemma min_PosInf: "min PosInf (Finite a) = Finite a"
  by (simp add: min_def)

lemma max_NegInf: "max NegInf (Finite a) = Finite a"
  by (simp add: max_def)

lemma project_nonempty:
  assumes "vertices b \<noteq> []"
  shows "project b n = (Finite (Min ((\<lambda>p. dot p n) ` set (vertices b))),
                        Finite (Max ((\<lambda>p. dot p n) ` set (vertices b))))"
proof -
  obtain p ps where v: "vertices b = p # ps"
    using assms by (cases "vertices b") auto
  show ?thesis
    by (simp add: project_def v project_loop_acc min_PosInf max_NegInf
        fold_min_Finite fold_max_Finite fold_min_Min fold_max_Max)
qed

lemma project_empty: "vertices b = [] \<Longrightarrow> project b n = (PosInf, NegInf)"
  by (simp add: project_def)


section \<open>The loops of the test\<close>

lemma intersect_along_overlap: "intersect_along b1 b2 n = overlap_on b1 b2 n"
  by (simp add: intersect_along_def overlap_on_def split: prod.split)

lemma upto_first_failure_Nil: "upto_first_failure P [] = []"
  by (simp add: upto_first_failure_def)

lemma upto_first_failure_Cons:
  "upto_first_failure P (x # xs) = (if P x then x # upto_first_failure P xs else [x])"
  by (simp add: upto_first_failure_def)

lemma upto_first_failure_all: "list_all P xs \<Longrightarrow> upto_first_failure P xs = xs"
  by (induction xs) (simp_all add: upto_first_failure_Nil upto_first_failure_Cons)

lemma upto_first_failure_append:
  "upto_first_failure P (xs @ ys) =
     (if list_all P xs then xs @ upto_first_failure P ys else upto_first_failure P xs)"
  by (induction xs) (simp_all add: upto_first_failure_Cons)

lemma normals_loop_char:
  "normals_loop b1 b2 ns =
     (if list_all (intersect_along b1 b2) ns then None else Some False,
      upto_first_failure (intersect_along b1 b2) ns)"
  by (induction ns) (simp_all add: upto_first_failure_Nil upto_first_failure_Cons)

lemma edges_inner_loop_char:
  "edges_inner_loop b1 b2 e1 es2 = normals_loop b1 b2 (map (\<lambda>e2. cross e1 e2) es2)"
  by (induction es2) (simp_all add: Let_def)

lemma edges_outer_loop_char:
  "edges_outer_loop b1 b2 es1 es2 =
     normals_loop b1 b2 (concat (map (\<lambda>e1. map (\<lambda>e2. cross e1 e2) es2) es1))"
proof (induction es1)
  case Nil
  show ?case by simp
next
  case (Cons e1 es1)
  show ?case
    by (simp add: Cons.IH edges_inner_loop_char normals_loop_char upto_first_failure_append
        upto_first_failure_all)
qed

lemma intersect_run_char:
  "intersect_run b1 b2 =
     (list_all (intersect_along b1 b2) (sat_axes b1 b2),
      upto_first_failure (intersect_along b1 b2) (sat_axes b1 b2))"
  by (simp add: intersect_run_def sat_axes_def edges_outer_loop_char normals_loop_char
      upto_first_failure_append upto_first_failure_all)

lemma intersect_char: "intersect b1 b2 = list_all (intersect_along b1 b2) (sat_axes b1 b2)"
  by (simp add: intersect_def intersect_run_char)


section \<open>Overlap on one axis\<close>

lemma overlap_on_iff:
  "overlap_on b1 b2 n =
     ((\<exists>p\<in>set (vertices b1). \<exists>q\<in>set (vertices b2). dot p n \<le> dot q n) \<and>
      (\<exists>q\<in>set (vertices b2). \<exists>p\<in>set (vertices b1). dot q n \<le> dot p n))"
proof (cases "vertices b1 = []")
  case e1: True
  show ?thesis
  proof (cases "vertices b2 = []")
    case True
    then show ?thesis using e1 by (simp add: overlap_on_def project_empty)
  next
    case False
    then show ?thesis using e1 by (simp add: overlap_on_def project_empty project_nonempty)
  qed
next
  case n1: False
  show ?thesis
  proof (cases "vertices b2 = []")
    case True
    then show ?thesis using n1 by (simp add: overlap_on_def project_empty project_nonempty)
  next
    case False
    then show ?thesis using n1
      by (simp add: overlap_on_def project_nonempty Min_le_iff Max_ge_iff) blast
  qed
qed

lemma overlap_on_commute: "overlap_on b2 b1 n = overlap_on b1 b2 n"
  by (auto simp: overlap_on_def)

lemma dot_vneg: "dot p (vneg n) = - dot p n"
  by (simp add: dot_def vneg_def)

lemma overlap_on_vneg: "overlap_on b1 b2 (vneg n) = overlap_on b1 b2 n"
  by (simp add: overlap_on_iff dot_vneg) blast

lemma dot_vzero: "dot p vzero = 0"
  by (simp add: dot_def vzero_def)

lemma overlap_on_vzero:
  "vertices b1 \<noteq> [] \<Longrightarrow> vertices b2 \<noteq> [] \<Longrightarrow> overlap_on b1 b2 vzero"
  by (cases "vertices b1"; cases "vertices b2") (auto simp: overlap_on_iff dot_vzero)


lemma cross_swap: "cross e2 e1 = vneg (cross e1 e2)"
  by (simp add: cross_def vneg_def)


lemma set_sat_axes:
  "set (sat_axes b1 b2) =
     set (face_normals b1) \<union> set (face_normals b2) \<union>
     {cross e1 e2 | e1 e2. e1 \<in> set (edge_directions b1) \<and> e2 \<in> set (edge_directions b2)}"
  by (auto simp: sat_axes_def)

lemma intersect_iff:
  "intersect b1 b2 = (\<forall>n\<in>set (sat_axes b1 b2). overlap_on b1 b2 n)"
  by (simp add: intersect_char list_all_iff intersect_along_overlap)

lemma intersect_commute: "intersect b1 b2 = intersect b2 b1"
proof -
  have "(\<forall>n\<in>set (sat_axes b1 b2). overlap_on b1 b2 n) =
        (\<forall>n\<in>set (sat_axes b2 b1). overlap_on b1 b2 n)" (is "?L = ?R")
  proof
    assume l: ?L
    show ?R
    proof
      fix n assume "n \<in> set (sat_axes b2 b1)"
      then consider "n \<in> set (face_normals b1) \<union> set (face_normals b2)"
        | e1 e2 where "n = cross e2 e1" "e1 \<in> set (edge_directions b1)" "e2 \<in> set (edge_directions b2)"
        by (auto simp: set_sat_axes)
      then show "overlap_on b1 b2 n"
      proof cases
        case 1
        then show ?thesis using l by (auto simp: set_sat_axes)
      next
        case 2
        then have "cross e1 e2 \<in> set (sat_axes b1 b2)" by (auto simp: set_sat_axes)
        then have "overlap_on b1 b2 (cross e1 e2)" using l by blast
        then show ?thesis using 2(1) by (simp add: cross_swap [of e2 e1] overlap_on_vneg)
      qed
    qed
  next
    assume r: ?R
    show ?L
    proof
      fix n assume "n \<in> set (sat_axes b1 b2)"
      then consider "n \<in> set (face_normals b1) \<union> set (face_normals b2)"
        | e1 e2 where "n = cross e1 e2" "e1 \<in> set (edge_directions b1)" "e2 \<in> set (edge_directions b2)"
        by (auto simp: set_sat_axes)
      then show "overlap_on b1 b2 n"
      proof cases
        case 1
        then show ?thesis using r by (auto simp: set_sat_axes)
      next
        case 2
        then have "cross e2 e1 \<in> set (sat_axes b2 b1)" by (auto simp: set_sat_axes)
        then have "overlap_on b1 b2 (cross e2 e1)" using r by blast
        then show ?thesis using 2(1) by (simp add: cross_swap [of e2 e1] overlap_on_vneg)
      qed
    qed
  qed
  then show ?thesis
    by (simp add: intersect_iff overlap_on_commute [of b1 b2])
qed


section \<open>Projection and the separating-axis test: the properties\<close>

text \<open>
  C1. For any two shapes, \<^verbatim>\<open>intersect\<close> hands to \<^verbatim>\<open>intersect_along\<close> the axes
  of \<open>sat_axes\<close> in their order (the face normals of the first shape, those of
  the second, then the cross products of each edge direction of the first with each
  edge direction of the second), up to and including the first axis on which the
  test \<^verbatim>\<open>min1 <= max2 && min2 <= max1\<close> on the two projections fails, and no axis
  after it; it returns false when there is such an axis and true when every axis
  passes.
\<close>

theorem intersect_axis_order_short_circuit:
  "intersect_run b1 b2 =
     (list_all (overlap_on b1 b2) (sat_axes b1 b2),
      upto_first_failure (overlap_on b1 b2) (sat_axes b1 b2))
   \<and> intersect b1 b2 = fst (intersect_run b1 b2)
   \<and> intersect b1 b2 = list_all (overlap_on b1 b2) (sat_axes b1 b2)
   \<and> intersect_along b1 b2 n = overlap_on b1 b2 n"
proof -
  have "intersect_along b1 b2 = overlap_on b1 b2"
    by (rule ext) (rule intersect_along_overlap)
  then show ?thesis
    using intersect_run_char [of b1 b2] by (simp add: intersect_def)
qed



text \<open>
  C3. Swapping the two arguments of \<^verbatim>\<open>intersect\<close> does not change its result,
  although the order of the axes changes and the cross products change sign.
\<close>

theorem intersect_symmetric: "intersect a b = intersect b a"
  by (rule intersect_commute)









section \<open>The box and the frustum\<close>

lemma upt_8: "[0..<8] = [0, 1, 2, 3, 4, 5, 6, 7::nat]"
  by (simp add: upt_rec)

lemma aabb_vertices:
  "vertices (aabb mn mx) =
     [Vec3 (vx mn) (vy mn) (vz mn), Vec3 (vx mx) (vy mn) (vz mn),
      Vec3 (vx mn) (vy mx) (vz mn), Vec3 (vx mx) (vy mx) (vz mn),
      Vec3 (vx mn) (vy mn) (vz mx), Vec3 (vx mx) (vy mn) (vz mx),
      Vec3 (vx mn) (vy mx) (vz mx), Vec3 (vx mx) (vy mx) (vz mx)]"
  by (simp add: aabb_def upt_8 aabb_vertex_def)

lemma project_aabb_x:
  "vec3_le mn mx \<Longrightarrow> project (aabb mn mx) (Vec3 1 0 0) = (Finite (vx mn), Finite (vx mx))"
  by (simp add: project_nonempty aabb_vertices dot_def vec3_le_def)

lemma project_aabb_y:
  "vec3_le mn mx \<Longrightarrow> project (aabb mn mx) (Vec3 0 1 0) = (Finite (vy mn), Finite (vy mx))"
  by (simp add: project_nonempty aabb_vertices dot_def vec3_le_def)

lemma project_aabb_z:
  "vec3_le mn mx \<Longrightarrow> project (aabb mn mx) (Vec3 0 0 1) = (Finite (vz mn), Finite (vz mx))"
  by (simp add: project_nonempty aabb_vertices dot_def vec3_le_def)

lemma aabb_cross_axes:
  "concat (map (\<lambda>e1. map (\<lambda>e2. cross e1 e2) aabb_edge_directions) aabb_edge_directions) =
     [vzero, Vec3 0 0 1, Vec3 0 (- 1) 0,
      Vec3 0 0 (- 1), vzero, Vec3 1 0 0,
      Vec3 0 1 0, Vec3 (- 1) 0 0, vzero]"
  by (simp add: aabb_edge_directions_def cross_def vzero_def)


lemma aabb_vertices_nonempty: "vertices (aabb mn mx) \<noteq> []"
  by (simp add: aabb_vertices)

lemma aabb_edge_directions: "edge_directions (aabb mn mx) = aabb_edge_directions"
  by (simp add: aabb_def)

lemma aabb_face_normals: "face_normals (aabb mn mx) = aabb_face_normals"
  by (simp add: aabb_def)

lemma overlap_aabb_x:
  "vec3_le amin amax \<Longrightarrow> vec3_le bmin bmax \<Longrightarrow>
   overlap_on (aabb amin amax) (aabb bmin bmax) (Vec3 1 0 0) =
     (vx amin \<le> vx bmax \<and> vx bmin \<le> vx amax)"
  by (simp add: overlap_on_def project_aabb_x)

lemma overlap_aabb_y:
  "vec3_le amin amax \<Longrightarrow> vec3_le bmin bmax \<Longrightarrow>
   overlap_on (aabb amin amax) (aabb bmin bmax) (Vec3 0 1 0) =
     (vy amin \<le> vy bmax \<and> vy bmin \<le> vy amax)"
  by (simp add: overlap_on_def project_aabb_y)

lemma overlap_aabb_z:
  "vec3_le amin amax \<Longrightarrow> vec3_le bmin bmax \<Longrightarrow>
   overlap_on (aabb amin amax) (aabb bmin bmax) (Vec3 0 0 1) =
     (vz amin \<le> vz bmax \<and> vz bmin \<le> vz amax)"
  by (simp add: overlap_on_def project_aabb_z)

lemma overlap_aabb_vzero: "overlap_on (aabb amin amax) (aabb bmin bmax) vzero"
  by (simp add: overlap_on_vzero aabb_vertices_nonempty)

lemma overlap_on_neg_x: "overlap_on b1 b2 (Vec3 (- 1) 0 0) = overlap_on b1 b2 (Vec3 1 0 0)"
  using overlap_on_vneg [of b1 b2 "Vec3 1 0 0"] by (simp add: vneg_def)

lemma overlap_on_neg_y: "overlap_on b1 b2 (Vec3 0 (- 1) 0) = overlap_on b1 b2 (Vec3 0 1 0)"
  using overlap_on_vneg [of b1 b2 "Vec3 0 1 0"] by (simp add: vneg_def)

lemma overlap_on_neg_z: "overlap_on b1 b2 (Vec3 0 0 (- 1)) = overlap_on b1 b2 (Vec3 0 0 1)"
  using overlap_on_vneg [of b1 b2 "Vec3 0 0 1"] by (simp add: vneg_def)

lemma sat_axes_aabb:
  "sat_axes (aabb amin amax) (aabb bmin bmax) =
     [Vec3 1 0 0, Vec3 0 1 0, Vec3 0 0 1, Vec3 1 0 0, Vec3 0 1 0, Vec3 0 0 1,
      vzero, Vec3 0 0 1, Vec3 0 (- 1) 0,
      Vec3 0 0 (- 1), vzero, Vec3 1 0 0,
      Vec3 0 1 0, Vec3 (- 1) 0 0, vzero]"
  by (simp add: sat_axes_def aabb_edge_directions aabb_face_normals aabb_face_normals_def
      aabb_cross_axes)

lemma intersect_aabb_naive:
  assumes "vec3_le amin amax" and "vec3_le bmin bmax"
  shows "intersect (aabb amin amax) (aabb bmin bmax) = naive_overlap amin amax bmin bmax"
  using assms
  by (simp add: intersect_char intersect_along_overlap sat_axes_aabb overlap_aabb_vzero
      overlap_on_neg_x overlap_on_neg_y overlap_on_neg_z
      overlap_aabb_x overlap_aabb_y overlap_aabb_z naive_overlap_def) blast

text \<open>
  C10. For two boxes built from corners with \<open>min \<le> max\<close> on each axis, the generic
  test gives the result of the naive test on the three coordinates. The nine cross
  products of the edge directions are the zero vector three times and the world
  axes or their negations six times; the zero vector always passes and negating an
  axis does not change the test, so they separate nothing the face normals do not.
\<close>

theorem aabb_sat_equals_naive:
  assumes "vec3_le amin amax" and "vec3_le bmin bmax"
  shows "intersect (aabb amin amax) (aabb bmin bmax) = naive_overlap amin amax bmin bmax
       \<and> concat (map (\<lambda>e1. map (\<lambda>e2. cross e1 e2) (edge_directions (aabb bmin bmax)))
                    (edge_directions (aabb amin amax))) =
           [vzero, Vec3 0 0 1, vneg (Vec3 0 1 0),
            vneg (Vec3 0 0 1), vzero, Vec3 1 0 0,
            Vec3 0 1 0, vneg (Vec3 1 0 0), vzero]
       \<and> overlap_on (aabb amin amax) (aabb bmin bmax) vzero
       \<and> overlap_on (aabb amin amax) (aabb bmin bmax) (vneg n) =
           overlap_on (aabb amin amax) (aabb bmin bmax) n"
  using assms
  by (simp add: intersect_aabb_naive aabb_edge_directions aabb_cross_axes vneg_def
      overlap_aabb_vzero overlap_on_vneg [unfolded vneg_def])

theorem aabb_sat_equals_naive_witness:
  "vec3_le (Vec3 0 0 0) (Vec3 1 1 1) \<and> vec3_le (Vec3 (1/2) (1/2) 1) (Vec3 2 3 4)
   \<and> intersect (aabb (Vec3 0 0 0) (Vec3 1 1 1)) (aabb (Vec3 (1/2) (1/2) 1) (Vec3 2 3 4))
   \<and> naive_overlap (Vec3 0 0 0) (Vec3 1 1 1) (Vec3 (1/2) (1/2) 1) (Vec3 2 3 4)
   \<and> vec3_le (Vec3 0 0 0) (Vec3 1 1 1) \<and> vec3_le (Vec3 0 0 3) (Vec3 1 1 4)
   \<and> \<not> intersect (aabb (Vec3 0 0 0) (Vec3 1 1 1)) (aabb (Vec3 0 0 3) (Vec3 1 1 4))
   \<and> \<not> naive_overlap (Vec3 0 0 0) (Vec3 1 1 1) (Vec3 0 0 3) (Vec3 1 1 4)"
  using aabb_sat_equals_naive [of "Vec3 0 0 0" "Vec3 1 1 1" "Vec3 (1/2) (1/2) 1" "Vec3 2 3 4"]
    aabb_sat_equals_naive [of "Vec3 0 0 0" "Vec3 1 1 1" "Vec3 0 0 3" "Vec3 1 1 4"]
  by (simp add: vec3_le_def naive_overlap_def)

text \<open>
  C4. For two boxes built from corners with \<open>min \<le> max\<close> on each axis: when their
  ranges on some coordinate are disjoint, \<^verbatim>\<open>intersect\<close> is false; when the upper
  face of the first on a coordinate coincides with the lower face of the second and
  the ranges on the other two coordinates meet, \<^verbatim>\<open>intersect\<close> is true. The boxes
  \<open>[0,1]\<^sup>3\<close> and \<open>[2,3] \<times> [0,1] \<times> [0,1]\<close> do not intersect; \<open>[0,1]\<^sup>3\<close> and
  \<open>[0.5,1.5] \<times> [0,1] \<times> [0,1]\<close> do.
\<close>

theorem aabb_closed_interval_overlap:
  assumes "vec3_le amin amax" and "vec3_le bmin bmax"
  shows "(vx amax < vx bmin \<or> vx bmax < vx amin \<or>
          vy amax < vy bmin \<or> vy bmax < vy amin \<or>
          vz amax < vz bmin \<or> vz bmax < vz amin
            \<longrightarrow> \<not> intersect (aabb amin amax) (aabb bmin bmax))
       \<and> (vx amax = vx bmin \<and> vy amin \<le> vy bmax \<and> vy bmin \<le> vy amax \<and>
          vz amin \<le> vz bmax \<and> vz bmin \<le> vz amax
            \<longrightarrow> intersect (aabb amin amax) (aabb bmin bmax))
       \<and> (vy amax = vy bmin \<and> vx amin \<le> vx bmax \<and> vx bmin \<le> vx amax \<and>
          vz amin \<le> vz bmax \<and> vz bmin \<le> vz amax
            \<longrightarrow> intersect (aabb amin amax) (aabb bmin bmax))
       \<and> (vz amax = vz bmin \<and> vx amin \<le> vx bmax \<and> vx bmin \<le> vx amax \<and>
          vy amin \<le> vy bmax \<and> vy bmin \<le> vy amax
            \<longrightarrow> intersect (aabb amin amax) (aabb bmin bmax))
       \<and> \<not> intersect (aabb (Vec3 0 0 0) (Vec3 1 1 1)) (aabb (Vec3 2 0 0) (Vec3 3 1 1))
       \<and> intersect (aabb (Vec3 0 0 0) (Vec3 1 1 1)) (aabb (Vec3 (1/2) 0 0) (Vec3 (3/2) 1 1))"
proof -
  have 1: "\<not> intersect (aabb (Vec3 0 0 0) (Vec3 1 1 1)) (aabb (Vec3 2 0 0) (Vec3 3 1 1))"
    by (simp add: intersect_aabb_naive vec3_le_def naive_overlap_def)
  have 2: "intersect (aabb (Vec3 0 0 0) (Vec3 1 1 1)) (aabb (Vec3 (1/2) 0 0) (Vec3 (3/2) 1 1))"
    by (simp add: intersect_aabb_naive vec3_le_def naive_overlap_def)
  show ?thesis
    using assms 1 2
    by (auto simp: intersect_aabb_naive naive_overlap_def vec3_le_def)
qed

theorem aabb_closed_interval_overlap_witness:
  "vec3_le (Vec3 0 0 0) (Vec3 1 2 3) \<and> vec3_le (Vec3 (3/2) 0 0) (Vec3 2 2 3)
   \<and> (1::real) < 3/2
   \<and> \<not> intersect (aabb (Vec3 0 0 0) (Vec3 1 2 3)) (aabb (Vec3 (3/2) 0 0) (Vec3 2 2 3))
   \<and> vec3_le (Vec3 0 0 0) (Vec3 1 2 3) \<and> vec3_le (Vec3 1 1 1) (Vec3 2 2 3)
   \<and> vx (Vec3 1 2 3) = vx (Vec3 1 1 1)
   \<and> intersect (aabb (Vec3 0 0 0) (Vec3 1 2 3)) (aabb (Vec3 1 1 1) (Vec3 2 2 3))"
  using aabb_closed_interval_overlap [of "Vec3 0 0 0" "Vec3 1 2 3" "Vec3 (3/2) 0 0" "Vec3 2 2 3"]
    aabb_closed_interval_overlap [of "Vec3 0 0 0" "Vec3 1 2 3" "Vec3 1 1 1" "Vec3 2 2 3"]
  by (simp add: vec3_le_def)

lemma less_8_cases: "i < 8 \<Longrightarrow> i = 0 \<or> i = 1 \<or> i = 2 \<or> i = 3 \<or> i = 4 \<or> i = 5 \<or> i = 6 \<or> i = (7::nat)"
  by arith

text \<open>
  C8. A box has the eight vertices that combine the components of \<open>min\<close> and
  \<open>max\<close>; vertex \<open>i\<close> takes the component of \<open>max\<close> on x, y, z exactly when
  bit 0, 1, 2 of \<open>i\<close> is set. Its face normals and its edge directions are the
  three unit vectors of the world axes.
\<close>

theorem aabb_shape:
  "vertices (aabb mn mx) =
     [Vec3 (vx mn) (vy mn) (vz mn), Vec3 (vx mx) (vy mn) (vz mn),
      Vec3 (vx mn) (vy mx) (vz mn), Vec3 (vx mx) (vy mx) (vz mn),
      Vec3 (vx mn) (vy mn) (vz mx), Vec3 (vx mx) (vy mn) (vz mx),
      Vec3 (vx mn) (vy mx) (vz mx), Vec3 (vx mx) (vy mx) (vz mx)]
   \<and> length (vertices (aabb mn mx)) = 8
   \<and> (\<forall>i<8. vertices (aabb mn mx) ! i =
         Vec3 (if bit i 0 then vx mx else vx mn)
              (if bit i 1 then vy mx else vy mn)
              (if bit i 2 then vz mx else vz mn))
   \<and> set (vertices (aabb mn mx)) =
       {Vec3 a b c | a b c. a \<in> {vx mn, vx mx} \<and> b \<in> {vy mn, vy mx} \<and> c \<in> {vz mn, vz mx}}
   \<and> face_normals (aabb mn mx) = [Vec3 1 0 0, Vec3 0 1 0, Vec3 0 0 1]
   \<and> edge_directions (aabb mn mx) = [Vec3 1 0 0, Vec3 0 1 0, Vec3 0 0 1]"
proof -
  have nth: "vertices (aabb mn mx) ! i =
         Vec3 (if bit i 0 then vx mx else vx mn)
              (if bit i 1 then vy mx else vy mn)
              (if bit i 2 then vz mx else vz mn)" if "i < 8" for i
    using less_8_cases [OF that]
    by (elim disjE) (simp_all add: aabb_vertices bit_iff_odd)
  have s: "set (vertices (aabb mn mx)) =
       {Vec3 a b c | a b c. a \<in> {vx mn, vx mx} \<and> b \<in> {vy mn, vy mx} \<and> c \<in> {vz mn, vz mx}}"
    by (cases mn; cases mx) (auto simp: aabb_vertices)
  have fe: "face_normals (aabb mn mx) = [Vec3 1 0 0, Vec3 0 1 0, Vec3 0 0 1]"
    "edge_directions (aabb mn mx) = [Vec3 1 0 0, Vec3 0 1 0, Vec3 0 0 1]"
    by (simp_all add: aabb_edge_directions aabb_face_normals aabb_face_normals_def
        aabb_edge_directions_def)
  show ?thesis
    using nth s fe aabb_vertices [of mn mx] by simp
qed

theorem aabb_shape_witness:
  "(5::nat) < 8 \<and> bit (5::nat) 0 \<and> \<not> bit (5::nat) 1 \<and> bit (5::nat) 2
   \<and> vertices (aabb (Vec3 0 0 0) (Vec3 1 2 3)) ! 5 = Vec3 1 0 3"
proof -
  have "vertices (aabb (Vec3 0 0 0) (Vec3 1 2 3)) ! 5 =
         Vec3 (if bit (5::nat) 0 then vx (Vec3 1 2 3) else vx (Vec3 0 0 0))
              (if bit (5::nat) 1 then vy (Vec3 1 2 3) else vy (Vec3 0 0 0))
              (if bit (5::nat) 2 then vz (Vec3 1 2 3) else vz (Vec3 0 0 0))"
    using aabb_shape [of "Vec3 0 0 0" "Vec3 1 2 3", THEN conjunct2, THEN conjunct2,
        THEN conjunct1, rule_format, of 5]
    by simp
  then show ?thesis
    by (simp add: bit_iff_odd)
qed













end
